theory Spec2Isabelle
  imports Main
begin

section \<open>JavaScript values shared by client and backend\<close>

text \<open>
  The JSON-representable values that travel in request bodies, token payloads and
  stored documents. \<open>JUndefined\<close> is an absent property.
\<close>

datatype jsval = JUndefined | JNull | JStr string | JNum int | JBool bool

text \<open>
  The identity record \<open>{uid, email, displayName, photoURL}\<close>: the \<open>user\<close> of the
  request body of \<open>POST /api/auth/google\<close>, its echo in the response, and the client's
  \<open>CustomUser\<close>.
\<close>

record user_obj =
  uid :: jsval
  email :: jsval
  displayName :: jsval
  photoURL :: jsval

section \<open>Backend (server): token service and verification middleware\<close>

subsection \<open>The jsonwebtoken library, as a parameter\<close>

text \<open>
  \<open>jwt.sign(payload, secret, {expiresIn})\<close> and \<open>jwt.verify(token, secret)\<close> belong to
  the third-party package \<open>jsonwebtoken\<close>. They are passed to the handlers as a record of
  two functions. The clock (seconds) is an explicit argument of both. \<open>jwt_verify\<close>
  returns the decoded payload, or the \<open>name\<close> of the error it throws.
\<close>

record jwt_payload =
  p_uid :: jsval
  p_email :: jsval
  p_displayName :: jsval

record jwt_decoded = jwt_payload +
  iat :: nat
  exp :: nat

record jwt_lib =
  jwt_sign :: "jwt_payload \<Rightarrow> string \<Rightarrow> string \<Rightarrow> nat \<Rightarrow> string"
  jwt_verify :: "string \<Rightarrow> string \<Rightarrow> nat \<Rightarrow> string + jwt_decoded"



text \<open>\<open>process.env.JWT_SECRET || "your-secret-key"\<close>: an unset or empty variable is falsy.\<close>

definition jwt_secret :: "string option \<Rightarrow> string" where
  "jwt_secret env =
     (case env of
        None \<Rightarrow> ''your-secret-key''
      | Some s \<Rightarrow> if s = [] then ''your-secret-key'' else s)"

subsection \<open>HTTP responses\<close>

datatype res_json =
    ErrorJson string
  | AuthJson string user_obj

record http_response =
  status :: nat
  json :: res_json

subsection \<open>String.prototype.split and array indexing\<close>

text \<open>
  \<open>s.split(c)\<close> for a one-character separator: every occurrence separates, so two
  adjacent separators enclose an empty segment and \<open>"".split(" ")\<close> is \<open>[""]\<close>.
\<close>

fun split_on :: "char \<Rightarrow> string \<Rightarrow> string list" where
  "split_on c [] = [[]]"
| "split_on c (x # xs) =
     (if x = c then [] # split_on c xs
      else (case split_on c xs of
              [] \<Rightarrow> [[x]]
            | w # ws \<Rightarrow> (x # w) # ws))"

text \<open>\<open>xs[i]\<close>: \<open>undefined\<close> (here \<open>None\<close>) beyond the end of the array.\<close>

definition js_index :: "'a list \<Rightarrow> nat \<Rightarrow> 'a option" where
  "js_index xs i = (if i < length xs then Some (xs ! i) else None)"

subsection \<open>verifyToken\<close>

text \<open>
  The middleware either answers the request itself (\<open>Respond\<close>) or sets
  \<open>req.user = decoded\<close> and calls \<open>next()\<close> (\<open>Next decoded\<close>). The argument
  \<open>authHeader\<close> is \<open>req.headers.authorization\<close>, \<open>None\<close> when the header is absent.
\<close>

datatype mw_result = Respond http_response | Next jwt_decoded

definition verifyToken ::
  "jwt_lib \<Rightarrow> string option \<Rightarrow> nat \<Rightarrow> string option \<Rightarrow> mw_result" where
  "verifyToken lib env now authHeader =
     (case authHeader of
        None \<Rightarrow>
          Respond \<lparr>status = 401, json = ErrorJson ''No authorization header provided''\<rparr>
      | Some h \<Rightarrow>
          if h = [] then
            Respond \<lparr>status = 401, json = ErrorJson ''No authorization header provided''\<rparr>
          else
            (case js_index (split_on CHR '' '' h) 1 of
               None \<Rightarrow> Respond \<lparr>status = 401, json = ErrorJson ''No token provided''\<rparr>
             | Some token \<Rightarrow>
                 if token = [] then
                   Respond \<lparr>status = 401, json = ErrorJson ''No token provided''\<rparr>
                 else
                   (case jwt_verify lib token (jwt_secret env) now of
                      Inr decoded \<Rightarrow> Next decoded
                    | Inl name \<Rightarrow>
                        if name = ''TokenExpiredError'' then
                          Respond \<lparr>status = 401, json = ErrorJson ''Token expired''\<rparr>
                        else if name = ''JsonWebTokenError'' then
                          Respond \<lparr>status = 401, json = ErrorJson ''Invalid token format''\<rparr>
                        else
                          Respond \<lparr>status = 401, json = ErrorJson ''Invalid token''\<rparr>)))"

subsection \<open>The User collection\<close>

text \<open>
  Modelled from the spec: the \<open>User\<close> model (\<open>./models/User\<close>) and the document store
  behind it are not among the sources. A User Record has the attributes the specification
  lists (subject id, email, display name, avatar URL, last-updated timestamp), under the
  names the handler writes them with: \<open>firebase_uid\<close>, \<open>email\<close>, \<open>display_name\<close>,
  \<open>photo_url\<close> and \<open>updated_at\<close>; \<open>updated_at = None\<close> is a document whose timestamp
  the handler has not set. The collection is the list of documents in insertion order.
  \<open>findOne\<close> yields the position of the first document with the given
  \<open>firebase_uid\<close>; \<open>save\<close> appends a new document or replaces the one found. A
  database call that throws is the input \<open>db_fault\<close>, and leaves the collection as it is.
\<close>

record user_record =
  firebase_uid :: jsval
  db_email :: jsval
  display_name :: jsval
  photo_url :: jsval
  updated_at :: "nat option"

type_synonym user_db = "user_record list"

datatype db_fault = NoFault | FindOneThrows | SaveThrows

fun findOne :: "user_db \<Rightarrow> jsval \<Rightarrow> nat option" where
  "findOne [] u = None"
| "findOne (r # rs) u =
     (if firebase_uid r = u then Some 0
      else (case findOne rs u of None \<Rightarrow> None | Some i \<Rightarrow> Some (Suc i)))"

subsection \<open>POST /api/auth/google\<close>

datatype body_user = UserUndefined | UserNull | UserObj user_obj

text \<open>
  \<open>req.body\<close>: \<open>BodyUndefined\<close> when no body was parsed, else the values of its
  \<open>idToken\<close> and \<open>user\<close> properties. Reading a property of \<open>undefined\<close> or \<open>null\<close>
  throws a TypeError; a \<open>user\<close> that lacks one of the four properties (or is a primitive
  value) is a \<open>UserObj\<close> with \<open>JUndefined\<close> there.
\<close>

datatype req_body = BodyUndefined | Body jsval body_user

datatype js_error = TypeError | DbError

text \<open>The inner \<open>try\<close> block: look the user up, create or update the document.\<close>

definition upsert_user :: "db_fault \<Rightarrow> nat \<Rightarrow> user_db \<Rightarrow> body_user \<Rightarrow> js_error + user_db" where
  "upsert_user fault now db user =
     (case user of
        UserUndefined \<Rightarrow> Inl TypeError
      | UserNull \<Rightarrow> Inl TypeError
      | UserObj u \<Rightarrow>
          if fault = FindOneThrows then Inl DbError
          else
            (case findOne db (uid u) of
               None \<Rightarrow>
                 if fault = SaveThrows then Inl DbError
                 else Inr (db @ [\<lparr>firebase_uid = uid u, db_email = email u,
                                   display_name = displayName u, photo_url = photoURL u,
                                   updated_at = None\<rparr>])
             | Some i \<Rightarrow>
                 if fault = SaveThrows then Inl DbError
                 else Inr (db[i := (db ! i)\<lparr>display_name := displayName u,
                                            photo_url := photoURL u,
                                            updated_at := Some now\<rparr>])))"

text \<open>
  The handler: the inner \<open>catch\<close> logs a failed upsert and goes on with the collection
  unchanged; the outer \<open>catch\<close> answers 500 for anything else that throws. \<open>jwt.sign\<close>
  is given a plain object, a non-empty secret and \<open>expiresIn: "7d"\<close>, for which it returns
  a token. \<open>res.json\<close> without \<open>res.status\<close> answers 200. The clock \<open>now\<close> serves both
  \<open>new Date()\<close> and the library.
\<close>

definition auth_google ::
  "jwt_lib \<Rightarrow> string option \<Rightarrow> nat \<Rightarrow> db_fault \<Rightarrow> user_db \<Rightarrow> req_body
     \<Rightarrow> user_db \<times> http_response" where
  "auth_google lib env now fault db body =
     (case body of
        BodyUndefined \<Rightarrow> (db, \<lparr>status = 500, json = ErrorJson ''Authentication failed''\<rparr>)
      | Body idToken user \<Rightarrow>
          (let db' = (case upsert_user fault now db user of Inl e \<Rightarrow> db | Inr d \<Rightarrow> d)
           in (case user of
                 UserUndefined \<Rightarrow>
                   (db', \<lparr>status = 500, json = ErrorJson ''Authentication failed''\<rparr>)
               | UserNull \<Rightarrow>
                   (db', \<lparr>status = 500, json = ErrorJson ''Authentication failed''\<rparr>)
               | UserObj u \<Rightarrow>
                   (db', \<lparr>status = 200,
                          json = AuthJson
                            (jwt_sign lib
                               \<lparr>p_uid = uid u, p_email = email u, p_displayName = displayName u\<rparr>
                               (jwt_secret env) ''7d'' now)
                            \<lparr>uid = uid u, email = email u, displayName = displayName u,
                             photoURL = photoURL u\<rparr>\<rparr>))))"

section \<open>Client (browser): Token Store, ApiService and AuthProvider\<close>

text \<open>
  The client code runs in the browser, so \<open>typeof window !== "undefined"\<close> holds in
  every guard. Each asynchronous function is modelled as one atomic step that takes the
  outcome of its \<open>fetch\<close> as an argument and returns the state it leaves behind together
  with its result (\<open>Inl\<close>: the error it throws).
\<close>

subsection \<open>Token Store and outcomes of fetch\<close>

text \<open>
  The text stored under the key \<open>"user"\<close>, by what \<open>getStoredUser\<close> makes of it:
  the JSON text of a user object; a text that is empty or parses to a falsy value (such as
  \<open>"null"\<close>); or a text that \<open>JSON.parse\<close> rejects (such as \<open>"undefined"\<close>, which is
  what \<open>setItem("user", JSON.stringify(undefined))\<close> stores).
\<close>

datatype user_item = ItemUser user_obj | ItemFalsy | ItemInvalid

text \<open>The \<open>user\<close> property of a parsed response body.\<close>

datatype json_user = RUser user_obj | RNull | RUndefined

text \<open>
  A parsed response body: \<open>null\<close>, or a value with the properties \<open>token\<close>, \<open>user\<close> and
  \<open>error\<close> (each possibly absent).
\<close>

datatype api_json = JsonNull | JsonObj "string option" json_user "string option"

datatype body_text = TextEmpty | TextNotJson | TextJson api_json

text \<open>
  \<open>await fetch(url, options)\<close> either rejects (\<open>FetchThrows True\<close>: with a TypeError whose
  message mentions \<open>fetch\<close>) or resolves to a response with a status and a body text.
\<close>

datatype fetch_result = FetchThrows bool | Response nat body_text

datatype api_error =
    NetworkUnreachable
  | FetchError
  | RequestFailedText nat
  | RequestFailed nat "string option"
  | InvalidJsonResponse
  | JsTypeError
  | JsonSyntaxError
  | NoTokenReceived
  | PodcastFailed
  | SignOutFailed

text \<open>
  The browser state the client code reads and writes: the React state of
  \<open>AuthProvider\<close> (\<open>user\<close>, \<open>loading\<close>, \<open>isAuthenticated\<close>, the ref
  \<open>hasProcessedInitialAuth\<close>, the flag \<open>isComponentMounted\<close>), the two localStorage keys,
  \<open>window.location.pathname\<close>, \<open>auth.currentUser\<close>, and three logs: the calls of
  \<open>router.push\<close>, the assignments to \<open>window.location.href\<close>, and the requests sent
  (method and endpoint).
\<close>

record client =
  user :: "user_obj option"
  loading :: bool
  isAuthenticated :: bool
  hasProcessedInitialAuth :: bool
  isComponentMounted :: bool
  authToken :: "string option"
  userItem :: "user_item option"
  pathname :: string
  currentUser :: "user_obj option"
  routerPushes :: "string list"
  hrefAssignments :: "string list"
  requests :: "(string \<times> string) list"

text \<open>A string read from storage or from a response is truthy when present and non-empty.\<close>

definition truthy :: "string option \<Rightarrow> bool" where
  "truthy t = (case t of None \<Rightarrow> False | Some s \<Rightarrow> s \<noteq> [])"

text \<open>\<open>response.ok\<close>\<close>

definition ok :: "nat \<Rightarrow> bool" where
  "ok st = (200 \<le> st \<and> st \<le> 299)"

text \<open>\<open>localStorage.removeItem("authToken"); localStorage.removeItem("user")\<close>\<close>

definition removeItems :: "client \<Rightarrow> client" where
  "removeItems c = c\<lparr>authToken := None, userItem := None\<rparr>"

text \<open>What \<open>localStorage.setItem("user", JSON.stringify(response.user))\<close> stores.\<close>

definition stringify :: "json_user \<Rightarrow> user_item" where
  "stringify ru = (case ru of RUser u \<Rightarrow> ItemUser u | RNull \<Rightarrow> ItemFalsy | RUndefined \<Rightarrow> ItemInvalid)"

subsection \<open>ApiService\<close>

text \<open>The \<open>Authorization\<close> entry of \<open>getHeaders()\<close>, absent when there is no truthy token.\<close>

definition getHeaders :: "client \<Rightarrow> string option" where
  "getHeaders c =
     (case authToken c of
        None \<Rightarrow> None
      | Some t \<Rightarrow> if t = [] then None else Some (''Bearer '' @ t))"

definition makeRequest ::
  "string \<Rightarrow> string \<Rightarrow> fetch_result \<Rightarrow> client \<Rightarrow> (api_error + api_json) \<times> client" where
  "makeRequest endpoint method res c =
     (let c1 = c\<lparr>requests := requests c @ [(method, endpoint)]\<rparr> in
      case res of
        FetchThrows fetch_msg \<Rightarrow>
          (Inl (if fetch_msg then NetworkUnreachable else FetchError), c1)
      | Response st text \<Rightarrow>
          if \<not> ok st then
            (let c2 = (if st = 401
                       then (removeItems c1)\<lparr>hrefAssignments := hrefAssignments c1 @ [''/'']\<rparr>
                       else c1)
             in (case text of
                   TextEmpty \<Rightarrow> (Inl (RequestFailedText st), c2)
                 | TextNotJson \<Rightarrow> (Inl (RequestFailedText st), c2)
                 | TextJson JsonNull \<Rightarrow> (Inl JsTypeError, c2)
                 | TextJson (JsonObj t u e) \<Rightarrow>
                     (Inl (RequestFailed st (if truthy e then e else None)), c2)))
          else
            (case text of
               TextEmpty \<Rightarrow> (Inr (JsonObj None RUndefined None), c1)
             | TextNotJson \<Rightarrow> (Inl InvalidJsonResponse, c1)
             | TextJson j \<Rightarrow> (Inr j, c1)))"

definition authenticateWithGoogle ::
  "jsval \<Rightarrow> user_obj \<Rightarrow> fetch_result \<Rightarrow> client \<Rightarrow> (api_error + api_json) \<times> client" where
  "authenticateWithGoogle idToken u res c =
     (case makeRequest ''/auth/google'' ''POST'' res c of
        (Inl e, c1) \<Rightarrow> (Inl e, c1)
      | (Inr response, c1) \<Rightarrow>
          (case response of
             JsonNull \<Rightarrow> (Inl JsTypeError, c1)
           | JsonObj t ru e \<Rightarrow>
               if truthy t
               then (Inr response, c1\<lparr>authToken := t, userItem := Some (stringify ru)\<rparr>)
               else (Inr response, c1)))"

definition api_logout :: "fetch_result \<Rightarrow> client \<Rightarrow> (api_error + api_json) \<times> client" where
  "api_logout res c =
     (case makeRequest ''/auth/logout'' ''POST'' res c of
        (Inl e, c1) \<Rightarrow> (Inl e, c1)
      | (Inr response, c1) \<Rightarrow> (Inr response, removeItems c1))"

definition getStoredUser :: "client \<Rightarrow> api_error + user_obj option" where
  "getStoredUser c =
     (case userItem c of
        None \<Rightarrow> Inr None
      | Some ItemFalsy \<Rightarrow> Inr None
      | Some ItemInvalid \<Rightarrow> Inl JsonSyntaxError
      | Some (ItemUser u) \<Rightarrow> Inr (Some u))"

text \<open>
  \<open>generateAudio\<close> calls \<open>fetch\<close> itself: a rejection of \<open>fetch\<close> propagates, a response
  that is not ok throws, anything else resolves to the blob (not modelled: \<open>Inr ()\<close>).
\<close>

definition generateAudio :: "fetch_result \<Rightarrow> client \<Rightarrow> (api_error + unit) \<times> client" where
  "generateAudio res c =
     (let c1 = c\<lparr>requests := requests c @ [(''POST'', ''/audio/generate'')]\<rparr> in
      case res of
        FetchThrows fetch_msg \<Rightarrow> (Inl FetchError, c1)
      | Response st text \<Rightarrow> if \<not> ok st then (Inl PodcastFailed, c1) else (Inr (), c1))"

text \<open>
  The asynchronous methods of \<open>ApiService\<close> that send a request, and the state each leaves
  behind. All but \<open>generateAudio\<close> go through \<open>makeRequest\<close>; the arguments that only
  shape the URL or the request body are the two strings of \<open>ViaMakeRequest\<close>.
\<close>

datatype api_method =
    ViaMakeRequest string string
  | AuthenticateWithGoogle jsval user_obj
  | ApiLogout
  | GenerateAudio

definition api_call :: "api_method \<Rightarrow> fetch_result \<Rightarrow> client \<Rightarrow> client" where
  "api_call m res c =
     (case m of
        ViaMakeRequest method endpoint \<Rightarrow> snd (makeRequest endpoint method res c)
      | AuthenticateWithGoogle idToken u \<Rightarrow> snd (authenticateWithGoogle idToken u res c)
      | ApiLogout \<Rightarrow> snd (api_logout res c)
      | GenerateAudio \<Rightarrow> snd (generateAudio res c))"

subsection \<open>AuthProvider\<close>

text \<open>
  The effect run when the provider mounts, up to the subscription: the React state starts
  as \<open>user = null\<close>, \<open>loading = true\<close>, \<open>isAuthenticated = false\<close>, and the cached session
  is read from the storage the browser holds. The arguments are that storage, the current
  path and the identity provider's current user.
\<close>

definition mount ::
  "string option \<Rightarrow> user_item option \<Rightarrow> string \<Rightarrow> user_obj option \<Rightarrow> api_error + client" where
  "mount token item path cu =
     (let c0 = \<lparr>user = None, loading = True, isAuthenticated = False,
                hasProcessedInitialAuth = False, isComponentMounted = True,
                authToken = token, userItem = item, pathname = path, currentUser = cu,
                routerPushes = [], hrefAssignments = [], requests = []\<rparr>
      in case getStoredUser c0 of
           Inl e \<Rightarrow> Inl e
         | Inr storedUser \<Rightarrow>
             (case storedUser of
                None \<Rightarrow> Inr c0
              | Some u \<Rightarrow>
                  if truthy token
                  then Inr (c0\<lparr>user := Some u, isAuthenticated := True,
                               hasProcessedInitialAuth := True\<rparr>)
                  else Inr c0))"

text \<open>\<open>router.push("/dashboard")\<close> when the page is the entry page.\<close>

definition pushDashboard :: "client \<Rightarrow> client" where
  "pushDashboard c =
     (if pathname c = ''/'' then c\<lparr>routerPushes := routerPushes c @ [''/dashboard'']\<rparr> else c)"

definition login :: "jsval \<Rightarrow> user_obj \<Rightarrow> fetch_result \<Rightarrow> client \<Rightarrow> (api_error + unit) \<times> client" where
  "login idToken userData res c =
     (case authenticateWithGoogle idToken userData res c of
        (Inl e, c1) \<Rightarrow> (Inl e, c1)
      | (Inr response, c1) \<Rightarrow>
          (case response of
             JsonNull \<Rightarrow> (Inl JsTypeError, c1)
           | JsonObj t ru e \<Rightarrow>
               if truthy t
               then (Inr (),
                     pushDashboard
                       (c1\<lparr>authToken := t, userItem := Some (stringify ru),
                           user := Some userData, isAuthenticated := True\<rparr>))
               else (Inl NoTokenReceived, c1)))"

text \<open>
  \<open>if (auth.currentUser) await auth.signOut()\<close>: the argument \<open>signOutOk\<close> tells whether
  the identity provider's \<open>signOut\<close> resolves (and clears its current user) or rejects.
\<close>

definition signOutIfCurrent :: "bool \<Rightarrow> client \<Rightarrow> api_error option \<times> client" where
  "signOutIfCurrent signOutOk c =
     (case currentUser c of
        None \<Rightarrow> (None, c)
      | Some cu \<Rightarrow> if signOutOk then (None, c\<lparr>currentUser := None\<rparr>) else (Some SignOutFailed, c))"

text \<open>The \<open>catch\<close> block of \<open>logout\<close>; what it throws reaches the caller.\<close>

definition logout_catch :: "bool \<Rightarrow> client \<Rightarrow> api_error option \<times> client" where
  "logout_catch signOutOk c =
     signOutIfCurrent signOutOk (removeItems (c\<lparr>user := None, isAuthenticated := False\<rparr>))"

definition logout :: "fetch_result \<Rightarrow> bool \<Rightarrow> client \<Rightarrow> api_error option \<times> client" where
  "logout res signOutOk c =
     (case api_logout res c of
        (Inl e, c1) \<Rightarrow> logout_catch signOutOk c1
      | (Inr response, c1) \<Rightarrow>
          (case signOutIfCurrent signOutOk (c1\<lparr>user := None, isAuthenticated := False\<rparr>) of
             (Some e, c2) \<Rightarrow> logout_catch signOutOk c2
           | (None, c2) \<Rightarrow> (None, removeItems c2)))"

text \<open>
  The callback given to \<open>onAuthStateChanged\<close>, called with the identity provider's user
  (\<open>None\<close>: signed out). \<open>firebaseUser.getIdToken()\<close> is taken to resolve; the token it
  yields is the \<open>idToken\<close> argument.
\<close>

definition onAuthStateChanged ::
  "user_obj option \<Rightarrow> jsval \<Rightarrow> fetch_result \<Rightarrow> client \<Rightarrow> client" where
  "onAuthStateChanged firebaseUser idToken res c =
     (if \<not> isComponentMounted c then c
      else
        (let c1 =
           (case firebaseUser of
              Some fu \<Rightarrow>
                if \<not> hasProcessedInitialAuth c then
                  (let userData = \<lparr>uid = uid fu, email = email fu,
                                    displayName = displayName fu, photoURL = photoURL fu\<rparr>
                   in case authenticateWithGoogle idToken userData res c of
                        (Inl e, c') \<Rightarrow> c'
                      | (Inr response, c') \<Rightarrow>
                          pushDashboard
                            (c'\<lparr>user := Some userData, isAuthenticated := True,
                                hasProcessedInitialAuth := True\<rparr>))
                else c
            | None \<Rightarrow>
                if hasProcessedInitialAuth c
                then removeItems (c\<lparr>user := None, isAuthenticated := False,
                                     hasProcessedInitialAuth := False\<rparr>)
                else c)
         in c1\<lparr>loading := False\<rparr>))"

text \<open>The cleanup of the effect: \<open>isComponentMounted = false\<close> (and the unsubscription).\<close>

definition unmount :: "client \<Rightarrow> client" where
  "unmount c = c\<lparr>isComponentMounted := False\<rparr>"

text \<open>
  What can happen to a mounted provider: the identity provider delivers an event (its
  current user is then the user delivered), or the application calls \<open>login\<close> or
  \<open>logout\<close>. \<open>run\<close> applies a sequence of them in order; a call that throws leaves the
  state it reached.
\<close>

datatype action =
    IdpEvent "user_obj option" jsval fetch_result
  | Login jsval user_obj fetch_result
  | Logout fetch_result bool

fun step :: "action \<Rightarrow> client \<Rightarrow> client" where
  "step (IdpEvent fu idToken res) c = onAuthStateChanged fu idToken res (c\<lparr>currentUser := fu\<rparr>)"
| "step (Login idToken userData res) c = snd (login idToken userData res c)"
| "step (Logout res signOutOk) c = snd (logout res signOutOk c)"

fun run :: "action list \<Rightarrow> client \<Rightarrow> client" where
  "run [] c = c"
| "run (a # as) c = run as (step a c)"

subsection \<open>The client against the backend\<close>

text \<open>
  What the client reads of an answer of the backend: \<open>res.json\<close> writes the status and the
  JSON text of the object, \<open>response.text()\<close> and \<open>JSON.parse\<close> read them back.
\<close>

definition to_fetch :: "http_response \<Rightarrow> fetch_result" where
  "to_fetch r =
     Response (status r)
       (TextJson (case json r of
                    ErrorJson e \<Rightarrow> JsonObj None RUndefined (Some e)
                  | AuthJson tok u \<Rightarrow> JsonObj (Some tok) (RUser u) None))"

text \<open>
  The outcome of the exchange request \<open>POST /auth/google\<close> with the body
  \<open>{idToken, user}\<close>: the request is lost (\<open>fetch\<close> rejects), or the handler answers it,
  at some time, over some state of the collection, with or without a database fault.
\<close>

datatype delivery = Lost bool | Answered nat db_fault user_db

definition exchange ::
  "jwt_lib \<Rightarrow> string option \<Rightarrow> delivery \<Rightarrow> jsval \<Rightarrow> user_obj \<Rightarrow> fetch_result" where
  "exchange lib env d idToken u =
     (case d of
        Lost fetch_msg \<Rightarrow> FetchThrows fetch_msg
      | Answered now fault db \<Rightarrow>
          to_fetch (snd (auth_google lib env now fault db (Body idToken (UserObj u)))))"

text \<open>
  The session driven by the identity provider and the application, with every exchange
  answered by the handler. An event without a user sends no request, so its outcome is
  immaterial. The answer to the logout request is left arbitrary.
\<close>

datatype sys_action =
    Event "user_obj option" jsval delivery
  | CallLogin jsval user_obj delivery
  | CallLogout fetch_result bool

fun sys_step :: "jwt_lib \<Rightarrow> string option \<Rightarrow> sys_action \<Rightarrow> client \<Rightarrow> client" where
  "sys_step lib env (Event None idToken d) c = step (IdpEvent None idToken (FetchThrows False)) c"
| "sys_step lib env (Event (Some fu) idToken d) c =
     step (IdpEvent (Some fu) idToken
             (exchange lib env d idToken
                \<lparr>uid = uid fu, email = email fu, displayName = displayName fu,
                 photoURL = photoURL fu\<rparr>)) c"
| "sys_step lib env (CallLogin idToken userData d) c =
     step (Login idToken userData (exchange lib env d idToken userData)) c"
| "sys_step lib env (CallLogout res signOutOk) c = step (Logout res signOutOk) c"

fun sys_run :: "jwt_lib \<Rightarrow> string option \<Rightarrow> sys_action list \<Rightarrow> client \<Rightarrow> client" where
  "sys_run lib env [] c = c"
| "sys_run lib env (a # as) c = sys_run lib env as (sys_step lib env a c)"

subsection \<open>The invariant of the session, as the specification states it\<close>

text \<open>
  The specification's words: \<open>isAuthenticated == true\<close> implies both \<open>user != null\<close> and
  a non-empty token in the Token Store.
\<close>

definition session_invariant :: "client \<Rightarrow> bool" where
  "session_invariant c = (isAuthenticated c \<longrightarrow> user c \<noteq> None \<and> truthy (authToken c))"

text \<open>
  An outcome of the exchange request under which the event path keeps the invariant:
  \<open>fetch\<close> fails, or the answer is an error other than 401, or it is a success whose
  body cannot be used or carries a truthy token.
\<close>

fun carries_token :: "fetch_result \<Rightarrow> bool" where
  "carries_token (FetchThrows b) = True"
| "carries_token (Response st text) =
     (if ok st
      then (case text of
              TextEmpty \<Rightarrow> False
            | TextNotJson \<Rightarrow> True
            | TextJson JsonNull \<Rightarrow> True
            | TextJson (JsonObj t ru e) \<Rightarrow> truthy t)
      else st \<noteq> 401)"

fun well_behaved :: "action \<Rightarrow> bool" where
  "well_behaved (IdpEvent fu idToken res) = carries_token res"
| "well_behaved (Login idToken userData res) = carries_token res"
| "well_behaved (Logout res signOutOk) = True"

section \<open>Properties of the backend\<close>

lemma split_on_no_sep: "c \<notin> set s \<Longrightarrow> split_on c s = [s]"
  by (induction s) auto

lemma split_on_first: "c \<notin> set w \<Longrightarrow> split_on c (w @ c # t) = w # split_on c t"
  by (induction w) auto

lemma findOne_Some:
  "findOne db u = Some i \<Longrightarrow> i < length db \<and> firebase_uid (db ! i) = u"
  by (induction db arbitrary: i) (auto split: if_splits option.splits)

subsection \<open>Token extraction\<close>

text \<open>
  Claim C10. \<open>verifyToken\<close> takes the second space-delimited segment of the
  \<open>Authorization\<close> header as the token and never looks at the first: a header made of any
  word \<open>w\<close>, a space and a token that verifies is let through with the decoded claims,
  and a header that is that token alone is answered 401 "No token provided".
\<close>

theorem verifyToken_ignores_scheme:
  assumes "CHR '' '' \<notin> set w" and "CHR '' '' \<notin> set tok" and "tok \<noteq> []"
    and "jwt_verify lib tok (jwt_secret env) now = Inr d"
  shows "verifyToken lib env now (Some (w @ CHR '' '' # tok)) = Next d
       \<and> verifyToken lib env now (Some tok)
           = Respond \<lparr>status = 401, json = ErrorJson ''No token provided''\<rparr>"
  using assms
  by (simp add: verifyToken_def split_on_first split_on_no_sep js_index_def)

theorem verifyToken_ignores_scheme_witness:
  "verifyToken
     \<lparr>jwt_sign = (\<lambda>p s e t. ''abc''),
      jwt_verify = (\<lambda>t s n. if t = ''abc'' \<and> s = ''your-secret-key''
          then Inr \<lparr>p_uid = JStr ''u1'', p_email = JNull, p_displayName = JNull,
                    iat = 0, exp = 604800\<rparr>
          else Inl ''JsonWebTokenError'')\<rparr>
     None 5 (Some ''Basic abc'')
   = Next \<lparr>p_uid = JStr ''u1'', p_email = JNull, p_displayName = JNull, iat = 0, exp = 604800\<rparr>
   \<and> verifyToken
     \<lparr>jwt_sign = (\<lambda>p s e t. ''abc''),
      jwt_verify = (\<lambda>t s n. if t = ''abc'' \<and> s = ''your-secret-key''
          then Inr \<lparr>p_uid = JStr ''u1'', p_email = JNull, p_displayName = JNull,
                    iat = 0, exp = 604800\<rparr>
          else Inl ''JsonWebTokenError'')\<rparr>
     None 5 (Some ''abc'')
   = Respond \<lparr>status = 401, json = ErrorJson ''No token provided''\<rparr>"
  using verifyToken_ignores_scheme [of "''Basic''" "''abc''"
     "\<lparr>jwt_sign = (\<lambda>p s e t. ''abc''),
      jwt_verify = (\<lambda>t s n. if t = ''abc'' \<and> s = ''your-secret-key''
          then Inr \<lparr>p_uid = JStr ''u1'', p_email = JNull, p_displayName = JNull,
                    iat = 0, exp = 604800\<rparr>
          else Inl ''JsonWebTokenError'')\<rparr>" None 5
     "\<lparr>p_uid = JStr ''u1'', p_email = JNull, p_displayName = JNull, iat = 0, exp = 604800\<rparr>"]
  by (simp add: jwt_secret_def)

subsection \<open>Rejections of the middleware\<close>





subsection \<open>Issue and verification of the Session Token\<close>

text \<open>
  Claim C2. Let \<open>tok\<close> be the token that \<open>POST /api/auth/google\<close> signs at time \<open>t0\<close> for
  the identity \<open>u\<close>, and let the library keep its contract on this token: it is a
  non-empty text without spaces; under the same secret it decodes to the payload signed,
  with \<open>iat = t0\<close> and \<open>exp = t0 + 604800\<close> (seven days), at every time before \<open>exp\<close>, and
  throws \<open>TokenExpiredError\<close> from \<open>exp\<close> on. Then the exchange answers 200 with \<open>tok\<close>
  and the echoed identity; a client that holds \<open>tok\<close> sends a header that the middleware
  accepts before the expiry, attaching exactly \<open>uid\<close>, \<open>email\<close> and \<open>displayName\<close> of
  \<open>u\<close>; and from the expiry on the middleware answers 401 "Token expired".
\<close>

theorem session_token_round_trip:
  assumes "tok = jwt_sign lib \<lparr>p_uid = uid u, p_email = email u, p_displayName = displayName u\<rparr>
                   (jwt_secret env) ''7d'' t0"
    and "tok \<noteq> []" and "CHR '' '' \<notin> set tok"
    and "\<And>now. now < t0 + 604800 \<Longrightarrow>
           jwt_verify lib tok (jwt_secret env) now
             = Inr \<lparr>p_uid = uid u, p_email = email u, p_displayName = displayName u,
                    iat = t0, exp = t0 + 604800\<rparr>"
    and "\<And>now. t0 + 604800 \<le> now \<Longrightarrow>
           jwt_verify lib tok (jwt_secret env) now = Inl ''TokenExpiredError''"
    and "authToken c = Some tok"
  shows "snd (auth_google lib env t0 fault db (Body idToken (UserObj u)))
           = \<lparr>status = 200, json = AuthJson tok u\<rparr>
       \<and> (\<forall>now. now < t0 + 604800 \<longrightarrow>
             verifyToken lib env now (getHeaders c)
               = Next \<lparr>p_uid = uid u, p_email = email u, p_displayName = displayName u,
                       iat = t0, exp = t0 + 604800\<rparr>)
       \<and> (\<forall>now. t0 + 604800 \<le> now \<longrightarrow>
             verifyToken lib env now (getHeaders c)
               = Respond \<lparr>status = 401, json = ErrorJson ''Token expired''\<rparr>)"
proof -
  have hdr: "getHeaders c = Some (''Bearer'' @ CHR '' '' # tok)"
    using assms(2,6) by (simp add: getHeaders_def)
  have seg: "js_index (split_on CHR '' '' (''Bearer'' @ CHR '' '' # tok)) 1 = Some tok"
    using assms(3) by (simp add: split_on_no_sep js_index_def)
  have issue: "snd (auth_google lib env t0 fault db (Body idToken (UserObj u)))
           = \<lparr>status = 200, json = AuthJson tok u\<rparr>"
    using assms(1) by (simp add: auth_google_def Let_def)
  have before: "verifyToken lib env now (getHeaders c)
               = Next \<lparr>p_uid = uid u, p_email = email u, p_displayName = displayName u,
                       iat = t0, exp = t0 + 604800\<rparr>" if "now < t0 + 604800" for now
    using assms(4)[OF that] seg assms(2) unfolding hdr verifyToken_def by simp
  have after: "verifyToken lib env now (getHeaders c)
               = Respond \<lparr>status = 401, json = ErrorJson ''Token expired''\<rparr>"
    if "t0 + 604800 \<le> now" for now
    using assms(5)[OF that] seg assms(2) unfolding hdr verifyToken_def by simp
  show ?thesis using issue before after by blast
qed

theorem session_token_round_trip_witness:
  "snd (auth_google
          \<lparr>jwt_sign = (\<lambda>p s e t. ''abc''),
           jwt_verify = (\<lambda>t s n. if n < 604800
              then Inr \<lparr>p_uid = JStr ''u1'', p_email = JStr ''a@b.com'', p_displayName = JStr ''A'',
                        iat = 0, exp = 604800\<rparr>
              else Inl ''TokenExpiredError'')\<rparr>
          None 0 NoFault []
          (Body (JStr ''id'')
             (UserObj \<lparr>uid = JStr ''u1'', email = JStr ''a@b.com'', displayName = JStr ''A'',
                       photoURL = JNull\<rparr>)))
     = \<lparr>status = 200,
        json = AuthJson ''abc''
          \<lparr>uid = JStr ''u1'', email = JStr ''a@b.com'', displayName = JStr ''A'',
           photoURL = JNull\<rparr>\<rparr>
   \<and> verifyToken
       \<lparr>jwt_sign = (\<lambda>p s e t. ''abc''),
        jwt_verify = (\<lambda>t s n. if n < 604800
           then Inr \<lparr>p_uid = JStr ''u1'', p_email = JStr ''a@b.com'', p_displayName = JStr ''A'',
                     iat = 0, exp = 604800\<rparr>
           else Inl ''TokenExpiredError'')\<rparr>
       None 604799 (Some ''Bearer abc'')
     = Next \<lparr>p_uid = JStr ''u1'', p_email = JStr ''a@b.com'', p_displayName = JStr ''A'',
             iat = 0, exp = 604800\<rparr>
   \<and> verifyToken
       \<lparr>jwt_sign = (\<lambda>p s e t. ''abc''),
        jwt_verify = (\<lambda>t s n. if n < 604800
           then Inr \<lparr>p_uid = JStr ''u1'', p_email = JStr ''a@b.com'', p_displayName = JStr ''A'',
                     iat = 0, exp = 604800\<rparr>
           else Inl ''TokenExpiredError'')\<rparr>
       None 604800 (Some ''Bearer abc'')
     = Respond \<lparr>status = 401, json = ErrorJson ''Token expired''\<rparr>"
proof -
  let ?lib = "\<lparr>jwt_sign = (\<lambda>p s e t. ''abc''),
           jwt_verify = (\<lambda>t s n. if n < (604800::nat)
              then Inr \<lparr>p_uid = JStr ''u1'', p_email = JStr ''a@b.com'', p_displayName = JStr ''A'',
                        iat = 0, exp = 604800\<rparr>
              else Inl ''TokenExpiredError'')\<rparr>"
  let ?u = "\<lparr>uid = JStr ''u1'', email = JStr ''a@b.com'', displayName = JStr ''A'',
                       photoURL = JNull\<rparr>"
  let ?c = "\<lparr>user = None, loading = False, isAuthenticated = False,
            hasProcessedInitialAuth = False, isComponentMounted = True,
            authToken = Some ''abc'', userItem = None, pathname = ''/'', currentUser = None,
            routerPushes = [], hrefAssignments = [], requests = []\<rparr>"
  have hdr: "getHeaders ?c = Some ''Bearer abc''" by (simp add: getHeaders_def)
  have rt: "snd (auth_google ?lib None 0 NoFault [] (Body (JStr ''id'') (UserObj ?u)))
           = \<lparr>status = 200, json = AuthJson ''abc'' ?u\<rparr>
       \<and> (\<forall>now. now < 0 + 604800 \<longrightarrow>
             verifyToken ?lib None now (getHeaders ?c)
               = Next \<lparr>p_uid = uid ?u, p_email = email ?u, p_displayName = displayName ?u,
                       iat = 0, exp = 0 + 604800\<rparr>)
       \<and> (\<forall>now. 0 + 604800 \<le> now \<longrightarrow>
             verifyToken ?lib None now (getHeaders ?c)
               = Respond \<lparr>status = 401, json = ErrorJson ''Token expired''\<rparr>)"
    by (rule session_token_round_trip [of "''abc''" ?lib ?u None 0 ?c NoFault "[]" "JStr ''id''"])
       simp_all
  have a: "verifyToken ?lib None 604799 (getHeaders ?c)
               = Next \<lparr>p_uid = uid ?u, p_email = email ?u, p_displayName = displayName ?u,
                       iat = 0, exp = 0 + 604800\<rparr>"
    using rt by simp
  have b: "verifyToken ?lib None 604800 (getHeaders ?c)
               = Respond \<lparr>status = 401, json = ErrorJson ''Token expired''\<rparr>"
    using rt by simp
  show ?thesis using rt a b unfolding hdr by simp
qed

subsection \<open>Request bodies without an identity record\<close>

text \<open>
  Claim C5, evaluated on the code: a body \<open>{idToken}\<close> with no \<open>user\<close> is not answered
  with a client-error status. Reading \<open>user.uid\<close> throws inside the inner \<open>try\<close>, which
  logs it; reading it again for the token payload throws into the outer \<open>catch\<close>, which
  answers 500 "Authentication failed". The collection is left as it was.
\<close>

theorem auth_google_missing_user:
  "auth_google lib env now fault db (Body idToken UserUndefined)
     = (db, \<lparr>status = 500, json = ErrorJson ''Authentication failed''\<rparr>)"
  by (simp add: auth_google_def upsert_user_def)

text \<open>
  The same holds for a \<open>user\<close> that is \<open>null\<close> and for a request without a parsed
  body; and whatever the body, the handler answers 200 or 500, never a 4xx status.
\<close>

lemma auth_google_null_user:
  "auth_google lib env now fault db (Body idToken UserNull)
     = (db, \<lparr>status = 500, json = ErrorJson ''Authentication failed''\<rparr>)"
  by (simp add: auth_google_def upsert_user_def)

lemma auth_google_no_body:
  "auth_google lib env now fault db BodyUndefined
     = (db, \<lparr>status = 500, json = ErrorJson ''Authentication failed''\<rparr>)"
  by (simp add: auth_google_def)

lemma auth_google_status:
  "status (snd (auth_google lib env now fault db body)) = 200
   \<or> status (snd (auth_google lib env now fault db body)) = 500"
  by (simp add: auth_google_def Let_def split: req_body.splits body_user.splits)

subsection \<open>Best-effort persistence\<close>

text \<open>
  Claim C6. For a body that carries an identity record, when the upsert throws
  (\<open>findOne\<close> or \<open>save\<close> fails) the exchange still answers 200 with a token signed for
  that identity and the echoed identity fields; nothing of the failure is in the
  response, and the collection is unchanged.
\<close>

theorem exchange_survives_persistence_failure:
  assumes "fault \<noteq> NoFault"
  shows "auth_google lib env now fault db (Body idToken (UserObj u))
           = (db, \<lparr>status = 200,
                   json = AuthJson
                     (jwt_sign lib
                        \<lparr>p_uid = uid u, p_email = email u, p_displayName = displayName u\<rparr>
                        (jwt_secret env) ''7d'' now)
                     u\<rparr>)"
  using assms
  by (cases fault) (simp_all add: auth_google_def upsert_user_def Let_def split: option.splits)

theorem exchange_survives_persistence_failure_witness:
  "auth_google \<lparr>jwt_sign = (\<lambda>p s e t. ''abc''), jwt_verify = (\<lambda>t s n. Inl t)\<rparr> None 7 SaveThrows []
     (Body (JStr ''id'')
        (UserObj \<lparr>uid = JStr ''u1'', email = JStr ''a@b.com'', displayName = JStr ''A'',
                  photoURL = JNull\<rparr>))
   = ([], \<lparr>status = 200,
           json = AuthJson ''abc''
             \<lparr>uid = JStr ''u1'', email = JStr ''a@b.com'', displayName = JStr ''A'',
              photoURL = JNull\<rparr>\<rparr>)"
  using exchange_survives_persistence_failure [of SaveThrows
      "\<lparr>jwt_sign = (\<lambda>p s e t. ''abc''), jwt_verify = (\<lambda>t s n. Inl t)\<rparr>" None 7 "[]"
      "JStr ''id''"
      "\<lparr>uid = JStr ''u1'', email = JStr ''a@b.com'', displayName = JStr ''A'',
        photoURL = JNull\<rparr>"]
  by simp

subsection \<open>Frame of the upsert\<close>

text \<open>
  Claim C8. When the subject id of the request is already in the collection (at
  position \<open>i\<close>), the exchange keeps the number of documents, leaves every other document
  as it was, and changes in document \<open>i\<close> only \<open>display_name\<close>, \<open>photo_url\<close> and
  \<open>updated_at\<close> (nothing at all when the upsert throws): \<open>firebase_uid\<close> and \<open>email\<close> are
  unchanged. And for any request body whatever, no document is removed and no
  \<open>firebase_uid\<close> or \<open>email\<close> of an existing document changes.
\<close>

theorem exchange_updates_only_profile_fields:
  assumes "findOne db (uid u) = Some i"
    and "db' = fst (auth_google lib env now fault db (Body idToken (UserObj u)))"
    and "db'' = fst (auth_google lib env now fault db body)"
  shows "length db' = length db
       \<and> (\<forall>j. j < length db \<and> j \<noteq> i \<longrightarrow> db' ! j = db ! j)
       \<and> db' ! i = (if fault = NoFault
                     then (db ! i)\<lparr>display_name := displayName u, photo_url := photoURL u,
                                   updated_at := Some now\<rparr>
                     else db ! i)
       \<and> firebase_uid (db' ! i) = firebase_uid (db ! i)
       \<and> db_email (db' ! i) = db_email (db ! i)
       \<and> length db \<le> length db''
       \<and> (\<forall>j. j < length db \<longrightarrow> firebase_uid (db'' ! j) = firebase_uid (db ! j)
                                 \<and> db_email (db'' ! j) = db_email (db ! j))"
proof -
  have i: "i < length db" using findOne_Some[OF assms(1)] by simp
  have db': "db' = (if fault = NoFault
                    then db[i := (db ! i)\<lparr>display_name := displayName u,
                                           photo_url := photoURL u,
                                           updated_at := Some now\<rparr>]
                    else db)"
    using assms(1,2) by (cases fault) (simp_all add: auth_google_def upsert_user_def Let_def)
  have a: "length db' = length db" by (simp add: db')
  have b: "\<forall>j. j < length db \<and> j \<noteq> i \<longrightarrow> db' ! j = db ! j" by (simp add: db')
  have c: "db' ! i = (if fault = NoFault
                     then (db ! i)\<lparr>display_name := displayName u, photo_url := photoURL u,
                                   updated_at := Some now\<rparr>
                     else db ! i)" using i by (simp add: db')
  have d: "firebase_uid (db' ! i) = firebase_uid (db ! i)" by (simp add: c)
  have e: "db_email (db' ! i) = db_email (db ! i)" by (simp add: c)
  have ups: "upsert_user fault now db usr = Inr d \<Longrightarrow>
        length db \<le> length d
        \<and> (\<forall>j. j < length db \<longrightarrow> firebase_uid (d ! j) = firebase_uid (db ! j)
                                 \<and> db_email (d ! j) = db_email (db ! j))" for usr d
    by (auto simp: upsert_user_def nth_append nth_list_update
             split: body_user.splits if_splits option.splits dest: findOne_Some)
  have f: "length db \<le> length db''
        \<and> (\<forall>j. j < length db \<longrightarrow> firebase_uid (db'' ! j) = firebase_uid (db ! j)
                                 \<and> db_email (db'' ! j) = db_email (db ! j))"
  proof (cases body)
    case BodyUndefined
    then show ?thesis using assms(3) by (simp add: auth_google_def)
  next
    case (Body idt usr)
    have "db'' = (case upsert_user fault now db usr of Inl e \<Rightarrow> db | Inr d \<Rightarrow> d)"
      using assms(3) Body by (simp add: auth_google_def Let_def split: body_user.splits)
    then show ?thesis using ups[of usr] by (cases "upsert_user fault now db usr") auto
  qed
  show ?thesis using a b c d e f by blast
qed

theorem exchange_updates_only_profile_fields_witness:
  "length (fst (auth_google \<lparr>jwt_sign = (\<lambda>p s e t. ''abc''), jwt_verify = (\<lambda>t s n. Inl t)\<rparr>
     None 7 NoFault
     [\<lparr>firebase_uid = JStr ''u0'', db_email = JStr ''z@b.com'', display_name = JStr ''Z'',
        photo_url = JNull, updated_at = None\<rparr>,
      \<lparr>firebase_uid = JStr ''u1'', db_email = JStr ''old@b.com'', display_name = JStr ''Old'',
        photo_url = JNull, updated_at = None\<rparr>]
     (Body (JStr ''id'')
        (UserObj \<lparr>uid = JStr ''u1'', email = JStr ''new@b.com'', displayName = JStr ''New'',
                  photoURL = JStr ''p''\<rparr>)))) = 2
   \<and> fst (auth_google \<lparr>jwt_sign = (\<lambda>p s e t. ''abc''), jwt_verify = (\<lambda>t s n. Inl t)\<rparr>
     None 7 NoFault
     [\<lparr>firebase_uid = JStr ''u0'', db_email = JStr ''z@b.com'', display_name = JStr ''Z'',
        photo_url = JNull, updated_at = None\<rparr>,
      \<lparr>firebase_uid = JStr ''u1'', db_email = JStr ''old@b.com'', display_name = JStr ''Old'',
        photo_url = JNull, updated_at = None\<rparr>]
     (Body (JStr ''id'')
        (UserObj \<lparr>uid = JStr ''u1'', email = JStr ''new@b.com'', displayName = JStr ''New'',
                  photoURL = JStr ''p''\<rparr>))) ! 1
     = \<lparr>firebase_uid = JStr ''u1'', db_email = JStr ''old@b.com'', display_name = JStr ''New'',
        photo_url = JStr ''p'', updated_at = Some 7\<rparr>"
proof -
  let ?lib = "\<lparr>jwt_sign = (\<lambda>p s e t. ''abc''), jwt_verify = (\<lambda>t s n. Inl t)\<rparr>"
  let ?r0 = "\<lparr>firebase_uid = JStr ''u0'', db_email = JStr ''z@b.com'', display_name = JStr ''Z'',
        photo_url = JNull, updated_at = None\<rparr>"
  let ?r1 = "\<lparr>firebase_uid = JStr ''u1'', db_email = JStr ''old@b.com'',
        display_name = JStr ''Old'', photo_url = JNull, updated_at = None\<rparr>"
  let ?u = "\<lparr>uid = JStr ''u1'', email = JStr ''new@b.com'', displayName = JStr ''New'',
                  photoURL = JStr ''p''\<rparr>"
  have found: "findOne [?r0, ?r1] (uid ?u) = Some (Suc 0)" by simp
  note th = exchange_updates_only_profile_fields [where lib = ?lib and env = None and now = 7
      and fault = NoFault and idToken = "JStr ''id''" and body = BodyUndefined,
      OF found refl refl]
  have len: "length (fst (auth_google ?lib None 7 NoFault [?r0, ?r1]
                 (Body (JStr ''id'') (UserObj ?u)))) = length [?r0, ?r1]"
    by (rule th [THEN conjunct1])
  have upd: "fst (auth_google ?lib None 7 NoFault [?r0, ?r1]
                 (Body (JStr ''id'') (UserObj ?u))) ! Suc 0
      = (if NoFault = NoFault
         then ([?r0, ?r1] ! Suc 0)\<lparr>display_name := displayName ?u, photo_url := photoURL ?u,
                                   updated_at := Some 7\<rparr>
         else [?r0, ?r1] ! Suc 0)"
    by (rule th [THEN conjunct2, THEN conjunct2, THEN conjunct1])
  show ?thesis using len upd by simp
qed

section \<open>Properties of the client\<close>

lemma fst_makeRequest_401:
  "\<exists>e. fst (makeRequest endpoint method (Response 401 text) c) = Inl e"
  by (simp add: makeRequest_def ok_def removeItems_def Let_def
           split: body_text.splits api_json.splits)

lemma makeRequest_401:
  "snd (makeRequest endpoint method (Response 401 text) c)
     = c\<lparr>requests := requests c @ [(method, endpoint)], authToken := None, userItem := None,
         hrefAssignments := hrefAssignments c @ [''/'']\<rparr>"
  by (simp add: makeRequest_def ok_def removeItems_def Let_def
           split: body_text.splits api_json.splits)

lemma makeRequest_401_pair:
  "\<exists>e. makeRequest endpoint method (Response 401 text) c
     = (Inl e, c\<lparr>requests := requests c @ [(method, endpoint)], authToken := None,
                 userItem := None, hrefAssignments := hrefAssignments c @ [''/'']\<rparr>)"
  using fst_makeRequest_401 [of endpoint "method" "text" c]
    makeRequest_401 [of endpoint "method" "text" c]
  by (metis prod.collapse)

subsection \<open>The session invariant\<close>

text \<open>
  The callback of the event path does not look at \<open>response.token\<close>: were the exchange
  answered with status 200 and an empty body, it would set \<open>isAuthenticated\<close> over an
  empty Token Store, where the explicit \<open>login\<close> throws "No token received from
  backend". The handler never gives that answer.
\<close>

lemma event_path_without_token:
  "(case mount None None ''/'' None of
      Inl e \<Rightarrow> False
    | Inr c0 \<Rightarrow>
        isAuthenticated
          (step (IdpEvent (Some \<lparr>uid = JStr ''x'', email = JNull, displayName = JNull,
                                  photoURL = JNull\<rparr>)
                   (JStr ''id'') (Response 200 TextEmpty)) c0) = True
        \<and> authToken
          (step (IdpEvent (Some \<lparr>uid = JStr ''x'', email = JNull, displayName = JNull,
                                  photoURL = JNull\<rparr>)
                   (JStr ''id'') (Response 200 TextEmpty)) c0) = None
        \<and> userItem
          (step (IdpEvent (Some \<lparr>uid = JStr ''x'', email = JNull, displayName = JNull,
                                  photoURL = JNull\<rparr>)
                   (JStr ''id'') (Response 200 TextEmpty)) c0) = None
        \<and> fst (login (JStr ''id'')
                  \<lparr>uid = JStr ''x'', email = JNull, displayName = JNull, photoURL = JNull\<rparr>
                  (Response 200 TextEmpty) c0) = Inl NoTokenReceived
        \<and> isAuthenticated
             (snd (login (JStr ''id'')
                  \<lparr>uid = JStr ''x'', email = JNull, displayName = JNull, photoURL = JNull\<rparr>
                  (Response 200 TextEmpty) c0)) = False)"
  by (simp add: mount_def getStoredUser_def onAuthStateChanged_def authenticateWithGoogle_def
        makeRequest_def ok_def truthy_def pushDashboard_def login_def Let_def)

text \<open>
  The invariant holds after the mount, and every step keeps it as long as no exchange is
  answered by a success without a token, or by a 401.
\<close>

lemma authenticateWithGoogle_cases:
  assumes "carries_token res"
  shows "(\<exists>e. authenticateWithGoogle idToken u res c
              = (Inl e, c\<lparr>requests := requests c @ [(''POST'', ''/auth/google'')]\<rparr>))
       \<or> (\<exists>t ru e. truthy t \<and> authenticateWithGoogle idToken u res c
              = (Inr (JsonObj t ru e),
                 c\<lparr>requests := requests c @ [(''POST'', ''/auth/google'')],
                   authToken := t, userItem := Some (stringify ru)\<rparr>))"
proof (cases res)
  case (FetchThrows b)
  then show ?thesis by (simp add: authenticateWithGoogle_def makeRequest_def Let_def)
next
  case (Response st bt)
  show ?thesis
  proof (cases "ok st")
    case True
    then show ?thesis using assms Response
      by (cases bt) (auto simp: authenticateWithGoogle_def makeRequest_def Let_def
                            split: api_json.splits)
  next
    case False
    then have "st \<noteq> 401" using assms Response by simp
    then show ?thesis using False Response
      by (cases bt) (auto simp: authenticateWithGoogle_def makeRequest_def Let_def
                            split: api_json.splits)
  qed
qed

lemma logout_not_authenticated: "isAuthenticated (snd (logout res signOutOk c)) = False"
  by (auto simp: logout_def logout_catch_def signOutIfCurrent_def removeItems_def
           split: prod.splits sum.splits option.splits)

lemma step_preserves_invariant:
  assumes "session_invariant c" and "well_behaved a"
  shows "session_invariant (step a c)"
proof (cases a)
  case (IdpEvent fu idToken res)
  then have ct: "carries_token res" using assms(2) by simp
  show ?thesis
  proof (cases fu)
    case None
    then show ?thesis using IdpEvent assms(1)
      by (simp add: onAuthStateChanged_def session_invariant_def removeItems_def Let_def)
  next
    case (Some f)
    from authenticateWithGoogle_cases [OF ct, of idToken
        "\<lparr>uid = uid f, email = email f, displayName = displayName f, photoURL = photoURL f\<rparr>"
        "c\<lparr>currentUser := Some f\<rparr>"]
    show ?thesis using IdpEvent Some assms(1)
      by (auto simp: onAuthStateChanged_def session_invariant_def Let_def pushDashboard_def)
  qed
next
  case (Login idToken userData res)
  then have ct: "carries_token res" using assms(2) by simp
  from authenticateWithGoogle_cases [OF ct, of idToken userData c]
  show ?thesis using Login assms(1)
    by (auto simp: login_def session_invariant_def pushDashboard_def)
next
  case (Logout res signOutOk)
  then show ?thesis by (simp add: session_invariant_def logout_not_authenticated)
qed

lemma run_preserves_invariant:
  "session_invariant c \<Longrightarrow> list_all well_behaved as \<Longrightarrow> session_invariant (run as c)"
  by (induction as arbitrary: c) (auto simp: step_preserves_invariant)

lemma mount_half_session:
  assumes "mount token item path cu = Inr c"
    and "\<not> truthy token \<or> item = None \<or> item = Some ItemFalsy"
  shows "isAuthenticated c = False \<and> user c = None \<and> hasProcessedInitialAuth c = False"
  using assms
  by (auto simp: mount_def getStoredUser_def Let_def
           split: option.splits user_item.splits if_splits)

lemma mount_establishes_invariant:
  "mount token item path cu = Inr c \<Longrightarrow> session_invariant c"
  by (auto simp: mount_def getStoredUser_def session_invariant_def Let_def
           split: option.splits user_item.splits if_splits)

lemma exchange_carries_token:
  assumes "\<And>p s e t. jwt_sign lib p s e t \<noteq> []"
  shows "carries_token (exchange lib env d idToken u)"
  using assms
  by (cases d) (simp_all add: exchange_def to_fetch_def auth_google_def Let_def ok_def truthy_def)

lemma sys_step_preserves_invariant:
  assumes "\<And>p s e t. jwt_sign lib p s e t \<noteq> []" and "session_invariant c"
  shows "session_invariant (sys_step lib env a c)"
proof (cases a)
  case (Event fu idToken d)
  show ?thesis
  proof (cases fu)
    case None
    then show ?thesis using Event assms(2) step_preserves_invariant [of c "IdpEvent None idToken (FetchThrows False)"]
      by simp
  next
    case (Some f)
    then show ?thesis using Event assms(2) exchange_carries_token [OF assms(1)]
        step_preserves_invariant [of c "IdpEvent (Some f) idToken
             (exchange lib env d idToken
                \<lparr>uid = uid f, email = email f, displayName = displayName f,
                 photoURL = photoURL f\<rparr>)"]
      by simp
  qed
next
  case (CallLogin idToken userData d)
  then show ?thesis using assms(2) exchange_carries_token [OF assms(1)]
      step_preserves_invariant [of c "Login idToken userData (exchange lib env d idToken userData)"]
    by simp
next
  case (CallLogout res signOutOk)
  then show ?thesis using assms(2) step_preserves_invariant [of c "Logout res signOutOk"]
    by simp
qed

lemma sys_run_preserves_invariant:
  assumes "\<And>p s e t. jwt_sign lib p s e t \<noteq> []"
  shows "session_invariant c \<Longrightarrow> session_invariant (sys_run lib env as c)"
  by (induction as arbitrary: c) (simp_all add: sys_step_preserves_invariant [OF assms])

lemma mount_mounted: "mount token item path cu = Inr c \<Longrightarrow> isComponentMounted c = True"
  by (auto simp: mount_def getStoredUser_def Let_def
           split: option.splits user_item.splits if_splits)

text \<open>
  Claim C1. Let the provider mount, and let any sequence of identity-provider events and
  calls of \<open>login\<close> and \<open>logout\<close> follow, each exchange lost or answered by the handler
  (whose library signs non-empty tokens). Then whenever \<open>isAuthenticated\<close> is true,
  \<open>user\<close> is not null and the Token Store holds a non-empty token. And when the provider
  mounts over a Token Store where the token or the cached user is missing, the session is
  logged out: \<open>isAuthenticated\<close> is false and \<open>user\<close> is null at the mount and after the
  event that ends the loading.
\<close>

theorem session_invariant_holds:
  assumes "\<And>p s e t. jwt_sign lib p s e t \<noteq> []"
    and "mount token item path cu = Inr c0"
  shows "(isAuthenticated (sys_run lib env as c0) \<longrightarrow>
            user (sys_run lib env as c0) \<noteq> None
            \<and> (\<exists>t. authToken (sys_run lib env as c0) = Some t \<and> t \<noteq> []))
       \<and> (\<not> truthy token \<or> item = None \<or> item = Some ItemFalsy \<longrightarrow>
            isAuthenticated c0 = False \<and> user c0 = None
            \<and> isAuthenticated (sys_step lib env (Event None idToken d) c0) = False
            \<and> user (sys_step lib env (Event None idToken d) c0) = None
            \<and> loading (sys_step lib env (Event None idToken d) c0) = False)"
proof -
  have "session_invariant (sys_run lib env as c0)"
    using sys_run_preserves_invariant [OF assms(1)] mount_establishes_invariant [OF assms(2)]
    by blast
  then have a: "isAuthenticated (sys_run lib env as c0) \<longrightarrow>
            user (sys_run lib env as c0) \<noteq> None
            \<and> (\<exists>t. authToken (sys_run lib env as c0) = Some t \<and> t \<noteq> [])"
    by (auto simp: session_invariant_def truthy_def split: option.splits)
  have b: "isAuthenticated c0 = False \<and> user c0 = None
            \<and> isAuthenticated (sys_step lib env (Event None idToken d) c0) = False
            \<and> user (sys_step lib env (Event None idToken d) c0) = None
            \<and> loading (sys_step lib env (Event None idToken d) c0) = False"
    if "\<not> truthy token \<or> item = None \<or> item = Some ItemFalsy"
    using mount_half_session [OF assms(2) that] mount_mounted [OF assms(2)]
    by (simp add: onAuthStateChanged_def removeItems_def Let_def)
  show ?thesis using a b by blast
qed


theorem session_invariant_holds_witness:
  "isAuthenticated
     (sys_run \<lparr>jwt_sign = (\<lambda>p s e t. ''abc''), jwt_verify = (\<lambda>t s n. Inl t)\<rparr> None
        [Event (Some \<lparr>uid = JStr ''x'', email = JNull, displayName = JNull, photoURL = JNull\<rparr>)
           (JStr ''id'') (Answered 7 NoFault [])]
        \<lparr>user = None, loading = True, isAuthenticated = False,
         hasProcessedInitialAuth = False, isComponentMounted = True,
         authToken = None, userItem = None, pathname = ''/'', currentUser = None,
         routerPushes = [], hrefAssignments = [], requests = []\<rparr>) = True
   \<and> user
     (sys_run \<lparr>jwt_sign = (\<lambda>p s e t. ''abc''), jwt_verify = (\<lambda>t s n. Inl t)\<rparr> None
        [Event (Some \<lparr>uid = JStr ''x'', email = JNull, displayName = JNull, photoURL = JNull\<rparr>)
           (JStr ''id'') (Answered 7 NoFault [])]
        \<lparr>user = None, loading = True, isAuthenticated = False,
         hasProcessedInitialAuth = False, isComponentMounted = True,
         authToken = None, userItem = None, pathname = ''/'', currentUser = None,
         routerPushes = [], hrefAssignments = [], requests = []\<rparr>) \<noteq> None
   \<and> (\<exists>t. authToken
     (sys_run \<lparr>jwt_sign = (\<lambda>p s e t. ''abc''), jwt_verify = (\<lambda>t s n. Inl t)\<rparr> None
        [Event (Some \<lparr>uid = JStr ''x'', email = JNull, displayName = JNull, photoURL = JNull\<rparr>)
           (JStr ''id'') (Answered 7 NoFault [])]
        \<lparr>user = None, loading = True, isAuthenticated = False,
         hasProcessedInitialAuth = False, isComponentMounted = True,
         authToken = None, userItem = None, pathname = ''/'', currentUser = None,
         routerPushes = [], hrefAssignments = [], requests = []\<rparr>) = Some t \<and> t \<noteq> [])"
proof -
  let ?lib = "\<lparr>jwt_sign = (\<lambda>p s e t. ''abc''), jwt_verify = (\<lambda>t s n. Inl t)\<rparr>"
  let ?c0 = "\<lparr>user = None, loading = True, isAuthenticated = False,
         hasProcessedInitialAuth = False, isComponentMounted = True,
         authToken = None, userItem = None, pathname = ''/'', currentUser = None,
         routerPushes = [], hrefAssignments = [], requests = []\<rparr>"
  let ?as = "[Event (Some \<lparr>uid = JStr ''x'', email = JNull, displayName = JNull,
                              photoURL = JNull\<rparr>)
           (JStr ''id'') (Answered 7 NoFault [])]"
  have sign: "\<And>p s e t. jwt_sign ?lib p s e t \<noteq> []" by simp
  have mnt: "mount None None ''/'' None = Inr ?c0"
    by (simp add: mount_def getStoredUser_def)
  have auth: "isAuthenticated (sys_run ?lib None ?as ?c0) = True"
    by (simp add: exchange_def to_fetch_def auth_google_def upsert_user_def
          onAuthStateChanged_def authenticateWithGoogle_def makeRequest_def ok_def truthy_def
          pushDashboard_def Let_def)
  from session_invariant_holds [OF sign mnt, of None ?as] auth
  show ?thesis by blast
qed

subsection \<open>Status 401 at the gateway\<close>

text \<open>
  Claim C3, evaluated on the code. \<open>generateAudio\<close> sends the bearer token like every
  other method of the gateway but handles the response itself: on status 401 it only
  throws. Both Token Store keys keep their values and \<open>window.location.href\<close> is not
  assigned; the state changes in the request log alone.
\<close>

theorem generateAudio_ignores_401:
  "api_call GenerateAudio (Response 401 text) c
     = c\<lparr>requests := requests c @ [(''POST'', ''/audio/generate'')]\<rparr>"
  by (simp add: api_call_def generateAudio_def ok_def Let_def)

text \<open>
  Every other method goes through \<open>makeRequest\<close>, which on status 401 removes both keys
  and assigns \<open>"/"\<close> to \<open>window.location.href\<close>.
\<close>

lemma api_call_401:
  assumes "m \<noteq> GenerateAudio"
  shows "authToken (api_call m (Response 401 text) c) = None
       \<and> userItem (api_call m (Response 401 text) c) = None
       \<and> hrefAssignments (api_call m (Response 401 text) c) = hrefAssignments c @ [''/'']"
proof (cases m)
  case (ViaMakeRequest meth ep)
  then show ?thesis by (simp add: api_call_def makeRequest_401)
next
  case (AuthenticateWithGoogle idToken u)
  obtain e where "makeRequest ''/auth/google'' ''POST'' (Response 401 text) c
     = (Inl e, c\<lparr>requests := requests c @ [(''POST'', ''/auth/google'')], authToken := None,
                 userItem := None, hrefAssignments := hrefAssignments c @ [''/'']\<rparr>)"
    using makeRequest_401_pair by blast
  then show ?thesis using AuthenticateWithGoogle
    by (simp add: api_call_def authenticateWithGoogle_def)
next
  case ApiLogout
  obtain e where "makeRequest ''/auth/logout'' ''POST'' (Response 401 text) c
     = (Inl e, c\<lparr>requests := requests c @ [(''POST'', ''/auth/logout'')], authToken := None,
                 userItem := None, hrefAssignments := hrefAssignments c @ [''/'']\<rparr>)"
    using makeRequest_401_pair by blast
  then show ?thesis using ApiLogout by (simp add: api_call_def api_logout_def)
next
  case GenerateAudio
  then show ?thesis using assms by simp
qed

subsection \<open>logout in the unauthenticated state\<close>

text \<open>
  Claim C4 as stated fails. In the unauthenticated state the client sends no
  \<open>Authorization\<close> header, the backend's middleware answers \<open>POST /auth/logout\<close> with
  401, and \<open>makeRequest\<close> assigns \<open>"/"\<close> to \<open>window.location.href\<close>: \<open>logout\<close> has sent
  a request and forced a navigation, so it is not a no-op.
\<close>

theorem logout_unauthenticated_navigates:
  "getHeaders
     \<lparr>user = None, loading = False, isAuthenticated = False, hasProcessedInitialAuth = False,
      isComponentMounted = True, authToken = None, userItem = None,
      pathname = ''/dashboard'', currentUser = None, routerPushes = [],
      hrefAssignments = [], requests = []\<rparr> = None
   \<and> verifyToken \<lparr>jwt_sign = (\<lambda>p s e t. ''abc''), jwt_verify = (\<lambda>t s n. Inl t)\<rparr> None 0 None
       = Respond \<lparr>status = 401, json = ErrorJson ''No authorization header provided''\<rparr>
   \<and> logout (Response 401 (TextJson (JsonObj None RUndefined
                (Some ''No authorization header provided'')))) True
     \<lparr>user = None, loading = False, isAuthenticated = False, hasProcessedInitialAuth = False,
      isComponentMounted = True, authToken = None, userItem = None,
      pathname = ''/dashboard'', currentUser = None, routerPushes = [],
      hrefAssignments = [], requests = []\<rparr>
     = (None,
        \<lparr>user = None, loading = False, isAuthenticated = False, hasProcessedInitialAuth = False,
         isComponentMounted = True, authToken = None, userItem = None,
         pathname = ''/dashboard'', currentUser = None, routerPushes = [],
         hrefAssignments = [''/''], requests = [(''POST'', ''/auth/logout'')]\<rparr>)"
  by (simp add: getHeaders_def verifyToken_def logout_def api_logout_def makeRequest_def
        logout_catch_def signOutIfCurrent_def removeItems_def truthy_def ok_def Let_def)

text \<open>
  Claim C4, amended. In a state with \<open>user = null\<close>, \<open>isAuthenticated = false\<close> and
  both Token Store keys absent, \<open>logout\<close> leaves \<open>user\<close>, \<open>isAuthenticated\<close> and the
  Token Store as they are, and it throws only when the identity provider still has a
  current user whose \<open>signOut\<close> rejects. It is not a no-op: it always sends
  \<open>POST /auth/logout\<close>, it forces a navigation to \<open>"/"\<close> when that request is answered
  401, and it signs the identity provider's current user out.
\<close>

theorem logout_when_unauthenticated:
  assumes "user c = None" and "isAuthenticated c = False" and "authToken c = None"
    and "userItem c = None"
  shows "logout res signOutOk c
     = (if currentUser c \<noteq> None \<and> \<not> signOutOk then Some SignOutFailed else None,
        c\<lparr>requests := requests c @ [(''POST'', ''/auth/logout'')],
          hrefAssignments :=
            (case res of
               FetchThrows b \<Rightarrow> hrefAssignments c
             | Response st text \<Rightarrow>
                 if st = 401 then hrefAssignments c @ [''/''] else hrefAssignments c),
          currentUser := (if signOutOk then None else currentUser c)\<rparr>)"
  using assms
  by (cases c; cases res)
     (auto simp: logout_def api_logout_def makeRequest_def logout_catch_def signOutIfCurrent_def
                 removeItems_def Let_def ok_def
           split: option.splits body_text.splits api_json.splits)

theorem logout_when_unauthenticated_witness:
  "logout (Response 200 (TextJson (JsonObj None RUndefined None))) True
     \<lparr>user = None, loading = False, isAuthenticated = False, hasProcessedInitialAuth = False,
      isComponentMounted = True, authToken = None, userItem = None,
      pathname = ''/dashboard'',
      currentUser = Some \<lparr>uid = JStr ''x'', email = JNull, displayName = JNull,
                           photoURL = JNull\<rparr>,
      routerPushes = [], hrefAssignments = [], requests = []\<rparr>
     = (None,
        \<lparr>user = None, loading = False, isAuthenticated = False, hasProcessedInitialAuth = False,
         isComponentMounted = True, authToken = None, userItem = None,
         pathname = ''/dashboard'', currentUser = None, routerPushes = [],
         hrefAssignments = [], requests = [(''POST'', ''/auth/logout'')]\<rparr>)"
  using logout_when_unauthenticated
    [of "\<lparr>user = None, loading = False, isAuthenticated = False,
          hasProcessedInitialAuth = False, isComponentMounted = True, authToken = None,
          userItem = None, pathname = ''/dashboard'',
          currentUser = Some \<lparr>uid = JStr ''x'', email = JNull, displayName = JNull,
                               photoURL = JNull\<rparr>,
          routerPushes = [], hrefAssignments = [], requests = []\<rparr>"
        "Response 200 (TextJson (JsonObj None RUndefined None))" True]
  by simp

subsection \<open>The cached session\<close>

text \<open>
  Claim C9. When the provider mounts over a Token Store that holds a user record and a
  non-empty token, the mount succeeds and leaves the session authenticated as that user
  with \<open>hasProcessedInitialAuth\<close> set, before any request has been sent. The next event
  of the identity provider that carries a user changes nothing but \<open>loading\<close>: it sends
  no request, so no backend exchange takes place.
\<close>

theorem cached_session_is_honored:
  assumes "tok \<noteq> []"
  shows "\<exists>c0. mount (Some tok) (Some (ItemUser u)) path cu = Inr c0
            \<and> user c0 = Some u \<and> isAuthenticated c0 = True
            \<and> hasProcessedInitialAuth c0 = True \<and> requests c0 = []
            \<and> onAuthStateChanged (Some fu) idToken res c0 = c0\<lparr>loading := False\<rparr>
            \<and> requests (step (IdpEvent (Some fu) idToken res) c0) = []
            \<and> user (step (IdpEvent (Some fu) idToken res) c0) = Some u
            \<and> isAuthenticated (step (IdpEvent (Some fu) idToken res) c0) = True"
  using assms
  by (simp add: mount_def getStoredUser_def truthy_def onAuthStateChanged_def Let_def)

theorem cached_session_is_honored_witness:
  "\<exists>c0. mount (Some ''abc'')
            (Some (ItemUser \<lparr>uid = JStr ''y'', email = JNull, displayName = JNull,
                              photoURL = JNull\<rparr>)) ''/dashboard'' None = Inr c0
        \<and> user c0 = Some \<lparr>uid = JStr ''y'', email = JNull, displayName = JNull,
                            photoURL = JNull\<rparr>
        \<and> isAuthenticated c0 = True
        \<and> requests c0 = []
        \<and> requests (step (IdpEvent (Some \<lparr>uid = JStr ''y'', email = JNull,
                                            displayName = JNull, photoURL = JNull\<rparr>)
                             (JStr ''id'') (Response 200 TextEmpty)) c0) = []"
proof -
  have ne: "''abc'' \<noteq> []" by simp
  from cached_session_is_honored [OF ne,
      of "\<lparr>uid = JStr ''y'', email = JNull, displayName = JNull, photoURL = JNull\<rparr>"
         "''/dashboard''" None
         "\<lparr>uid = JStr ''y'', email = JNull, displayName = JNull, photoURL = JNull\<rparr>"
         "JStr ''id''" "Response 200 TextEmpty"]
  show ?thesis by blast
qed

end
